theory Spec2Isabelle
  imports Complex_Main "HOL-Library.Sublist"
begin

section \<open>Data model of the video editor backend (main.py, schemas.py)\<close>

text \<open>
  Python floats are modelled as reals: the code only compares them, takes \<open>max\<close> and
  \<open>min\<close> and tests them for zero, which is exact on every finite float. NaN and the
  infinities are outside the model. Python ints are \<open>int\<close>, \<open>Optional[t]\<close> is
  \<open>t option\<close>, \<open>str\<close> is \<open>string\<close>.
\<close>

text \<open>\<open>HTTPException(status_code=..., detail=...)\<close>, the only exception the handlers raise.\<close>

datatype http_exception = HTTPException (status_code: int) (detail: string)

text \<open>
  A document of the \<open>asset\<close> collection: the \<open>asset_doc\<close> dictionary of \<open>upload_asset\<close>
  together with the \<open>_id\<close> the store gave it. \<open>render_video\<close> reads the path with
  \<open>asset_doc.get("path")\<close>, so the path may be missing.
\<close>

record asset_doc =
  a_id :: string
  a_project_id :: string
  a_filename :: string
  a_path :: "string option"
  a_url :: string
  a_kind :: string
  a_duration :: "real option"
  a_width :: "int option"
  a_height :: "int option"

text \<open>The dictionary \<open>upload_asset\<close> returns (the keys of class \<open>AssetResponse\<close>; its \<open>id\<close> is
  \<open>id_resp\<close> here, \<open>id\<close> being the identity function).\<close>

record AssetResponse =
  id_resp :: string
  project_id :: string
  filename :: string
  url :: string
  kind :: string
  duration :: "real option"
  width :: "int option"
  height :: "int option"

text \<open>
  Class \<open>RenderRequest\<close>. The fields carry the prefix \<open>req_\<close> (\<open>end\<close> is a keyword and
  \<open>rotate\<close> a list function).
\<close>

record RenderRequest =
  req_project_id :: string
  req_asset_id :: string
  req_start :: real
  req_end :: "real option"
  req_speed :: real
  req_volume :: real
  req_rotate :: int
  req_resolution_width :: "int option"
  req_resolution_height :: "int option"

text \<open>
  The \<open>render_doc\<close> dictionary of \<open>render_video\<close>, with the \<open>id\<close> of the response
  (\<open>{"id": render_id, **render_doc}\<close>).
\<close>

record render_doc =
  r_id :: string
  r_project_id :: string
  r_asset_id :: string
  r_start :: real
  r_end :: real
  r_speed :: real
  r_volume :: real
  r_rotate :: int
  r_resolution_width :: "int option"
  r_resolution_height :: "int option"
  r_status :: string
  r_output_url :: string

text \<open>
  The state the handlers read and change: the two collections of the metadata store, the
  number of documents inserted so far (from which the next identifier is generated) and
  the paths that exist on disk (what \<open>os.path.exists\<close> answers).
\<close>

record server =
  assets :: "asset_doc list"
  renders :: "render_doc list"
  inserted :: nat
  files :: "string list"

subsection \<open>The media library\<close>

text \<open>
  A decoded clip as the handlers see it: \<open>clip.duration\<close>, \<open>clip.w\<close>, \<open>clip.h\<close>, whether
  \<open>clip.audio\<close> is present, and its content, left abstract.
\<close>

record 'f clip =
  clip_duration :: real
  clip_w :: int
  clip_h :: int
  clip_audio :: bool
  clip_frames :: 'f

text \<open>
  The media library (moviepy) is not part of the repository, so its operations are
  parameters of the model. Each may raise: \<open>Inl\<close> carries the exception's message.
  \<open>write_videofile\<close> also changes the files on disk, whether it succeeds or not.
\<close>

record 'f moviepy =
  VideoFileClip :: "string \<Rightarrow> string + 'f clip"
  subclip :: "'f clip \<Rightarrow> real \<Rightarrow> real \<Rightarrow> string + 'f clip"
  speedx :: "'f clip \<Rightarrow> real \<Rightarrow> string + 'f clip"
  rotate_fx :: "'f clip \<Rightarrow> int \<Rightarrow> string + 'f clip"
  volumex :: "'f clip \<Rightarrow> real \<Rightarrow> string + 'f clip"
  resize :: "'f clip \<Rightarrow> int \<times> int \<Rightarrow> string + 'f clip"
  write_videofile :: "'f clip \<Rightarrow> string \<Rightarrow> string list \<Rightarrow> (string + unit) \<times> string list"
  reader_close :: "'f clip \<Rightarrow> string + unit"
  audio_close_proc :: "'f clip \<Rightarrow> string + unit"
  close_clip :: "'f clip \<Rightarrow> string + unit"

text \<open>
  What a call of a handler finds around it: the media library, \<open>None\<close> when its guarded
  import failed (\<open>VideoFileClip = None\<close>); the timestamp
  \<open>datetime.utcnow().strftime('%Y%m%d%H%M%S%f')\<close>; \<open>str(request.base_url)\<close>; and the
  identifier the store generates for its \<open>n\<close>-th document.
\<close>

record 'f env =
  media :: "'f moviepy option"
  utcnow :: string
  base_url :: string
  new_id :: "nat \<Rightarrow> string"

definition UPLOAD_DIR :: string where
  "UPLOAD_DIR = ''static/uploads''"

definition OUTPUT_DIR :: string where
  "OUTPUT_DIR = ''static/outputs''"

text \<open>\<open>os.path.join(d, name)\<close> for a relative \<open>name\<close> and a directory without trailing slash.\<close>

definition path_join :: "string \<Rightarrow> string \<Rightarrow> string" where
  "path_join d name = d @ ''/'' @ name"

text \<open>\<open>s.rstrip("/")\<close>.\<close>

definition rstrip_slash :: "string \<Rightarrow> string" where
  "rstrip_slash s = rev (dropWhile (\<lambda>c. c = CHR ''/'') (rev s))"

subsection \<open>The metadata store\<close>

text \<open>
  Modelled from the spec: \<open>database.py\<close> (\<open>get_documents\<close>, \<open>create_document\<close>) is not
  among the sources. The spec gives
  \<open>getDocuments(collectionName, filter?) -> list<record>\<close>, each record with an opaque
  identifier, and \<open>createDocument(collectionName, fields) -> id\<close>, which inserts, returns
  a generated identifier and never updates. A filter is a conjunction of conditions; the
  two that \<open>main.py\<close> uses on assets are \<open>"_id": {"$exists": b}\<close> and
  \<open>"project_id": p\<close>.
\<close>

datatype condition = IdExists bool | ProjectIdIs string

text \<open>
  Modelled from the spec: when a stored asset satisfies a condition of a filter. Every
  stored document has an \<open>_id\<close>.
\<close>

fun matches :: "asset_doc \<Rightarrow> condition \<Rightarrow> bool" where
  "matches d (IdExists b) = b"
| "matches d (ProjectIdIs p) = (a_project_id d = p)"

text \<open>
  Modelled from the spec: \<open>get_documents("asset", filter)\<close> of the missing \<open>database.py\<close>,
  the asset documents that satisfy every condition of the filter, in stored order.
\<close>

definition get_documents_asset :: "server \<Rightarrow> condition list \<Rightarrow> asset_doc list" where
  "get_documents_asset st flt = filter (\<lambda>d. list_all (matches d) flt) (assets st)"

text \<open>
  Modelled from the spec: \<open>create_document("asset", fields)\<close> of the missing
  \<open>database.py\<close>. It appends the document under a generated identifier and returns the
  identifier; no stored document is changed.
\<close>

definition create_document_asset :: "'f env \<Rightarrow> server \<Rightarrow> asset_doc \<Rightarrow> string \<times> server" where
  "create_document_asset e st doc =
     (let i = new_id e (inserted st)
      in (i, st\<lparr>assets := assets st @ [doc\<lparr>a_id := i\<rparr>], inserted := Suc (inserted st)\<rparr>))"

text \<open>
  Modelled from the spec: \<open>create_document("render", fields)\<close> of the missing
  \<open>database.py\<close>, as for assets.
\<close>

definition create_document_render :: "'f env \<Rightarrow> server \<Rightarrow> render_doc \<Rightarrow> string \<times> server" where
  "create_document_render e st doc =
     (let i = new_id e (inserted st)
      in (i, st\<lparr>renders := renders st @ [doc\<lparr>r_id := i\<rparr>], inserted := Suc (inserted st)\<rparr>))"

section \<open>Rendering: \<open>render_video\<close>\<close>

text \<open>
  Lines 202 to 213: the asset is looked for among \<open>get_documents("asset", {"_id":
  {"$exists": True}, "project_id": payload.project_id})\<close>, and when that finds none, among
  \<open>get_documents("asset", {"project_id": payload.project_id})\<close>. Each loop stops at the
  first document whose \<open>_id\<close> is \<open>payload.asset_id\<close>.
\<close>

definition find_asset :: "server \<Rightarrow> RenderRequest \<Rightarrow> asset_doc option" where
  "find_asset st payload =
     (case List.find (\<lambda>d. a_id d = req_asset_id payload)
             (get_documents_asset st [IdExists True, ProjectIdIs (req_project_id payload)]) of
        Some d \<Rightarrow> Some d
      | None \<Rightarrow>
          List.find (\<lambda>d. a_id d = req_asset_id payload)
            (get_documents_asset st [ProjectIdIs (req_project_id payload)]))"

text \<open>
  The bounds of the trim (lines 225 to 227), for a source of duration \<open>dur\<close>:
  \<open>start = max(0.0, float(payload.start or 0.0))\<close>,
  \<open>end = float(payload.end) if payload.end else clip.duration\<close>,
  \<open>end = min(end, clip.duration)\<close>. An \<open>end\<close> of \<open>None\<close> or \<open>0.0\<close> is falsy.
\<close>

definition trim_bounds :: "RenderRequest \<Rightarrow> real \<Rightarrow> real \<times> real" where
  "trim_bounds payload dur =
     (let start = max 0 (if req_start payload \<noteq> 0 then req_start payload else 0);
          end0 = (case req_end payload of
                    None \<Rightarrow> dur
                  | Some e \<Rightarrow> if e \<noteq> 0 then e else dur)
      in (start, min end0 dur))"

text \<open>The steps of the transform chain, each a section of the \<open>try\<close> block.\<close>

definition trim_step :: "'f moviepy \<Rightarrow> RenderRequest \<Rightarrow> 'f clip \<Rightarrow> string + 'f clip" where
  "trim_step mp payload c =
     (let (start, end1) = trim_bounds payload (clip_duration c)
      in subclip mp c start end1)"

definition speed_step :: "'f moviepy \<Rightarrow> RenderRequest \<Rightarrow> 'f clip \<Rightarrow> string + 'f clip" where
  "speed_step mp payload sub =
     (if req_speed payload \<noteq> 0 \<and> req_speed payload \<noteq> 1
      then speedx mp sub (req_speed payload) else Inr sub)"

definition rotate_map :: "int \<rightharpoonup> int" where
  "rotate_map = [0 \<mapsto> 0, 90 \<mapsto> 90, 180 \<mapsto> 180, 270 \<mapsto> 270]"

text \<open>\<open>rotate_map.get(int(payload.rotate or 0), 0)\<close>.\<close>

definition rotate_angle :: "RenderRequest \<Rightarrow> int" where
  "rotate_angle payload =
     (case rotate_map (if req_rotate payload \<noteq> 0 then req_rotate payload else 0) of
        Some r \<Rightarrow> r
      | None \<Rightarrow> 0)"

definition rotate_step :: "'f moviepy \<Rightarrow> RenderRequest \<Rightarrow> 'f clip \<Rightarrow> string + 'f clip" where
  "rotate_step mp payload sub =
     (let r = rotate_angle payload
      in if r \<noteq> 0 then rotate_fx mp sub r else Inr sub)"

text \<open>\<open>payload.volume\<close> is a float, never \<open>None\<close>.\<close>

definition volume_step :: "'f moviepy \<Rightarrow> RenderRequest \<Rightarrow> 'f clip \<Rightarrow> string + 'f clip" where
  "volume_step mp payload sub =
     (if clip_audio sub then volumex mp sub (max 0 (req_volume payload)) else Inr sub)"

text \<open>\<open>if payload.resolution_width and payload.resolution_height\<close>: \<open>None\<close> and \<open>0\<close> are falsy.\<close>

definition resize_step :: "'f moviepy \<Rightarrow> RenderRequest \<Rightarrow> 'f clip \<Rightarrow> string + 'f clip" where
  "resize_step mp payload sub =
     (case (req_resolution_width payload, req_resolution_height payload) of
        (Some rw, Some rh) \<Rightarrow> if rw \<noteq> 0 \<and> rh \<noteq> 0 then resize mp sub (rw, rh) else Inr sub
      | _ \<Rightarrow> Inr sub)"

text \<open>Sequencing: the first exception ends the chain.\<close>

definition and_then :: "string + 'a \<Rightarrow> ('a \<Rightarrow> string + 'b) \<Rightarrow> string + 'b" where
  "and_then r f = (case r of Inl m \<Rightarrow> Inl m | Inr x \<Rightarrow> f x)"

definition transform_chain :: "'f moviepy \<Rightarrow> RenderRequest \<Rightarrow> 'f clip \<Rightarrow> string + 'f clip" where
  "transform_chain mp payload c =
     and_then (and_then (and_then (and_then (trim_step mp payload c)
       (speed_step mp payload)) (rotate_step mp payload)) (volume_step mp payload))
       (resize_step mp payload)"

text \<open>\<open>except Exception as e: raise HTTPException(status_code=500, ...)\<close>.\<close>

definition render_failed :: "string \<Rightarrow> http_exception" where
  "render_failed m = HTTPException 500 (''Render failed: '' @ m)"

definition out_name :: "'f env \<Rightarrow> string" where
  "out_name e = ''render_'' @ utcnow e @ ''.mp4''"

definition out_path :: "'f env \<Rightarrow> string" where
  "out_path e = path_join OUTPUT_DIR (out_name e)"

text \<open>
  The \<open>try\<close> block of \<open>render_video\<close> (lines 221 to 283), entered with the media library
  and the source path. The block that closes the readers after the write swallows its
  exceptions and assigns nothing, so it has no part in the result.
\<close>

definition render_try ::
  "'f env \<Rightarrow> 'f moviepy \<Rightarrow> server \<Rightarrow> RenderRequest \<Rightarrow> string \<Rightarrow> (http_exception + render_doc) \<times> server" where
  "render_try e mp st payload source_path =
     (case VideoFileClip mp source_path of
        Inl m \<Rightarrow> (Inl (render_failed m), st)
      | Inr c \<Rightarrow>
          (case transform_chain mp payload c of
             Inl m \<Rightarrow> (Inl (render_failed m), st)
           | Inr sub \<Rightarrow>
               (case write_videofile mp sub (out_path e) (files st) of
                  (Inl m, fs) \<Rightarrow> (Inl (render_failed m), st\<lparr>files := fs\<rparr>)
                | (Inr _, fs) \<Rightarrow>
                    (let (start, end1) = trim_bounds payload (clip_duration c);
                         output_url = rstrip_slash (base_url e) @ ''/static/outputs/'' @ out_name e;
                         doc = \<lparr>r_id = [],
                                r_project_id = req_project_id payload,
                                r_asset_id = req_asset_id payload,
                                r_start = start,
                                r_end = end1,
                                r_speed = req_speed payload,
                                r_volume = req_volume payload,
                                r_rotate = req_rotate payload,
                                r_resolution_width = req_resolution_width payload,
                                r_resolution_height = req_resolution_height payload,
                                r_status = ''completed'',
                                r_output_url = output_url\<rparr>;
                         (render_id, st') = create_document_render e (st\<lparr>files := fs\<rparr>) doc
                     in (Inr (doc\<lparr>r_id := render_id\<rparr>), st')))))"

definition render_video ::
  "'f env \<Rightarrow> server \<Rightarrow> RenderRequest \<Rightarrow> (http_exception + render_doc) \<times> server" where
  "render_video e st payload =
     (case media e of
        None \<Rightarrow> (Inl (HTTPException 500 ''Video processing backend not available''), st)
      | Some mp \<Rightarrow>
          (case find_asset st payload of
             None \<Rightarrow> (Inl (HTTPException 404 ''Asset not found''), st)
           | Some d \<Rightarrow>
               (case a_path d of
                  None \<Rightarrow> (Inl (HTTPException 404 ''Source file not found on server''), st)
                | Some source_path \<Rightarrow>
                    if source_path = [] \<or> source_path \<notin> set (files st)
                    then (Inl (HTTPException 404 ''Source file not found on server''), st)
                    else render_try e mp st payload source_path)))"

section \<open>Ingestion: \<open>upload_asset\<close>\<close>

text \<open>Lines 125 to 129: the kind, by the prefix of the declared content type.\<close>

definition kind_of :: "string \<Rightarrow> string" where
  "kind_of content_type =
     (if prefix ''video/'' content_type then ''video''
      else if prefix ''audio/'' content_type then ''audio''
      else if prefix ''image/'' content_type then ''image''
      else ''other'')"

text \<open>
  The \<open>try\<close> block of lines 145 to 157. \<open>duration\<close>, \<open>width\<close> and \<open>height\<close> are assigned
  before the readers are closed, so an exception of a close leaves them assigned; the
  exception of \<open>clip.audio.reader.close_proc()\<close> is caught by the inner \<open>try\<close>. Every
  exception ends the block and is dropped by \<open>except Exception: pass\<close>.
\<close>

definition probe :: "'f moviepy \<Rightarrow> string \<Rightarrow> real option \<times> int option \<times> int option" where
  "probe mp save_path =
     (case VideoFileClip mp save_path of
        Inl _ \<Rightarrow> (None, None, None)
      | Inr c \<Rightarrow>
          (let duration = (if clip_duration c \<noteq> 0 then Some (clip_duration c) else None);
               width = Some (clip_w c);
               height = Some (clip_h c)
           in (case reader_close mp c of
                 Inl _ \<Rightarrow> (duration, width, height)
               | Inr _ \<Rightarrow>
                   (case (if clip_audio c
                          then (case audio_close_proc mp c of Inl _ \<Rightarrow> Inr () | Inr u \<Rightarrow> Inr u)
                          else Inr ()) of
                      Inl (_ :: string) \<Rightarrow> (duration, width, height)
                    | Inr _ \<Rightarrow>
                        (case close_clip mp c of
                           Inl _ \<Rightarrow> (duration, width, height)
                         | Inr _ \<Rightarrow> (duration, width, height))))))"

definition save_path_of :: "'f env \<Rightarrow> string \<Rightarrow> string" where
  "save_path_of e fname = path_join UPLOAD_DIR (utcnow e @ ''_'' @ fname)"

text \<open>
  \<open>upload_asset\<close> with the form field \<open>project_id\<close>, the declared content type of the
  file (\<open>None\<close> when absent) and its name. The bytes written are not modelled: writing
  the file makes its path exist.
\<close>

definition upload_asset ::
  "'f env \<Rightarrow> server \<Rightarrow> string \<Rightarrow> string option \<Rightarrow> string \<Rightarrow> (http_exception + AssetResponse) \<times> server" where
  "upload_asset e st pid content_type fname =
     (case content_type of
        None \<Rightarrow> (Inl (HTTPException 400 ''Unsupported file type''), st)
      | Some ct \<Rightarrow>
          (let knd = kind_of ct in
           if knd = ''other''
           then (Inl (HTTPException 400 ''Only video/audio/image files are supported''), st)
           else
             (let fn = utcnow e @ ''_'' @ fname;
                  save_path = save_path_of e fname;
                  st1 = st\<lparr>files := save_path # files st\<rparr>;
                  (dur, wd, ht) =
                    (if knd = ''video''
                     then (case media e of
                             Some mp \<Rightarrow> probe mp save_path
                           | None \<Rightarrow> (None, None, None))
                     else (None, None, None));
                  public_url = rstrip_slash (base_url e) @ ''/static/uploads/'' @ fn;
                  doc = \<lparr>a_id = [],
                         a_project_id = pid,
                         a_filename = fname,
                         a_path = Some save_path,
                         a_url = public_url,
                         a_kind = knd,
                         a_duration = dur,
                         a_width = wd,
                         a_height = ht\<rparr>;
                  (asset_id, st2) = create_document_asset e st1 doc
              in (Inr \<lparr>id_resp = asset_id,
                       project_id = pid,
                       filename = fname,
                       url = public_url,
                       kind = knd,
                       duration = dur,
                       width = wd,
                       height = ht\<rparr>, st2))))"

section \<open>A sample deployment for concrete evaluation\<close>

text \<open>
  A small media library whose clips record the effects applied to them. As the real one
  does, its \<open>subclip\<close> refuses a start beyond the duration of the clip. It opens one file
  only, a clip of ten seconds with sound.
\<close>

datatype fx = Subclip real real | Speedx real | Rotate int | Volumex real | Resize int int

definition sample_clip :: "fx list clip" where
  "sample_clip = \<lparr>clip_duration = 10, clip_w = 1920, clip_h = 1080, clip_audio = True,
                  clip_frames = []\<rparr>"

definition sample_media :: "fx list moviepy" where
  "sample_media =
     \<lparr>VideoFileClip = (\<lambda>p. if p = ''static/uploads/clip.mp4'' then Inr sample_clip
                            else Inl ''file could not be decoded''),
      subclip = (\<lambda>c s t. if clip_duration c < s
                          then Inl ''t_start should be smaller than the duration''
                          else Inr (c\<lparr>clip_duration := t - s,
                                      clip_frames := clip_frames c @ [Subclip s t]\<rparr>)),
      speedx = (\<lambda>c f. Inr (c\<lparr>clip_duration := clip_duration c / f,
                               clip_frames := clip_frames c @ [Speedx f]\<rparr>)),
      rotate_fx = (\<lambda>c r. Inr (c\<lparr>clip_w := (if r = 180 then clip_w c else clip_h c),
                                  clip_h := (if r = 180 then clip_h c else clip_w c),
                                  clip_frames := clip_frames c @ [Rotate r]\<rparr>)),
      volumex = (\<lambda>c v. Inr (c\<lparr>clip_frames := clip_frames c @ [Volumex v]\<rparr>)),
      resize = (\<lambda>c (rw, rh). Inr (c\<lparr>clip_w := rw, clip_h := rh,
                                       clip_frames := clip_frames c @ [Resize rw rh]\<rparr>)),
      write_videofile = (\<lambda>c p fs. (Inr (), p # fs)),
      reader_close = (\<lambda>c. Inr ()),
      audio_close_proc = (\<lambda>c. Inr ()),
      close_clip = (\<lambda>c. Inr ())\<rparr>"

definition sample_env :: "fx list env" where
  "sample_env = \<lparr>media = Some sample_media,
                 utcnow = ''20240101120000000000'',
                 base_url = ''http://localhost:8000/'',
                 new_id = (\<lambda>n. ''doc'' @ replicate n (CHR ''+''))\<rparr>"

definition sample_asset :: asset_doc where
  "sample_asset = \<lparr>a_id = ''a1'',
                   a_project_id = ''p1'',
                   a_filename = ''clip.mp4'',
                   a_path = Some ''static/uploads/clip.mp4'',
                   a_url = ''http://localhost:8000/static/uploads/clip.mp4'',
                   a_kind = ''video'',
                   a_duration = Some 10,
                   a_width = Some 1920,
                   a_height = Some 1080\<rparr>"

definition sample_server :: server where
  "sample_server = \<lparr>assets = [sample_asset], renders = [], inserted = 1,
                    files = [''static/uploads/clip.mp4'']\<rparr>"

text \<open>A request for the sample asset with the defaults of \<open>RenderRequest\<close>.\<close>

definition sample_request :: RenderRequest where
  "sample_request = \<lparr>req_project_id = ''p1'',
                     req_asset_id = ''a1'',
                     req_start = 0,
                     req_end = None,
                     req_speed = 1,
                     req_volume = 1,
                     req_rotate = 0,
                     req_resolution_width = None,
                     req_resolution_height = None\<rparr>"

section \<open>What the result of a render depends on\<close>

text \<open>
  A request enters the transform chain only through the trim bounds, the speed, the angle
  of the rotation, the volume and the resize step; it enters \<open>render_video\<close> through these,
  the two identifiers and the fields copied into the record.
\<close>

lemma transform_chain_eq:
  assumes "trim_bounds p = trim_bounds q" "req_speed p = req_speed q"
    "rotate_angle p = rotate_angle q" "req_volume p = req_volume q"
    "resize_step mp p = resize_step mp q"
  shows "transform_chain mp p = transform_chain mp q"
proof (rule ext)
  fix c
  show "transform_chain mp p c = transform_chain mp q c"
    unfolding transform_chain_def trim_step_def speed_step_def rotate_step_def volume_step_def
      assms ..
qed

lemma find_asset_eq:
  assumes "req_project_id p = req_project_id q" "req_asset_id p = req_asset_id q"
  shows "find_asset st p = find_asset st q"
  unfolding find_asset_def assms ..

lemma render_try_eq:
  assumes "trim_bounds p = trim_bounds q" "transform_chain mp p = transform_chain mp q"
    "req_project_id p = req_project_id q" "req_asset_id p = req_asset_id q"
    "req_speed p = req_speed q" "req_volume p = req_volume q" "req_rotate p = req_rotate q"
    "req_resolution_width p = req_resolution_width q"
    "req_resolution_height p = req_resolution_height q"
  shows "render_try e mp st p sp = render_try e mp st q sp"
  unfolding render_try_def assms ..

lemma render_video_eq:
  assumes "trim_bounds p = trim_bounds q"
    "\<And>mp :: 'f moviepy. transform_chain mp p = transform_chain mp q"
    "req_project_id p = req_project_id q" "req_asset_id p = req_asset_id q"
    "req_speed p = req_speed q" "req_volume p = req_volume q" "req_rotate p = req_rotate q"
    "req_resolution_width p = req_resolution_width q"
    "req_resolution_height p = req_resolution_height q"
  shows "render_video (e :: 'f env) st p = render_video e st q"
proof -
  have f: "find_asset st p = find_asset st q"
    using assms(3,4) by (rule find_asset_eq)
  have t: "render_try e mp st p sp = render_try e mp st q sp" for mp sp
    using assms(1) assms(2) [of mp] assms(3-9) by (rule render_try_eq)
  show ?thesis
    unfolding render_video_def f t ..
qed

lemmas sample_defs =
  sample_env_def sample_media_def sample_server_def sample_asset_def sample_request_def
  sample_clip_def

lemmas step_defs =
  trim_step_def speed_step_def rotate_step_def volume_step_def resize_step_def
  transform_chain_def and_then_def rotate_angle_def rotate_map_def trim_bounds_def

lemmas render_defs =
  render_video_def render_try_def find_asset_def get_documents_asset_def
  create_document_render_def render_failed_def out_path_def out_name_def path_join_def
  OUTPUT_DIR_def rstrip_slash_def Let_def

section \<open>The trim bounds\<close>

lemma bounds_end:
  "req_end payload = Some 0 \<Longrightarrow> trim_bounds payload = trim_bounds (payload\<lparr>req_end := None\<rparr>)"
  by (rule ext) (simp add: trim_bounds_def)

lemma resize_step_end: "resize_step mp (payload\<lparr>req_end := x\<rparr>) = resize_step mp payload"
  by (rule ext) (simp add: resize_step_def)

lemma chain_end:
  assumes z: "req_end payload = Some 0"
  shows "transform_chain mp payload = transform_chain mp (payload\<lparr>req_end := None\<rparr>)"
proof (rule transform_chain_eq)
  show "trim_bounds payload = trim_bounds (payload\<lparr>req_end := None\<rparr>)"
    by (rule bounds_end [OF z])
  show "resize_step mp payload = resize_step mp (payload\<lparr>req_end := None\<rparr>)"
    by (rule resize_step_end [symmetric])
qed (simp_all add: rotate_angle_def)

text \<open>
  C10. A request whose \<open>end\<close> is \<open>0.0\<close> is handled as one whose \<open>end\<close> is unset: the
  resolved end is the duration of the source, the trim bounds are those of the request
  without an end, and the whole render (response and state) is the same.
\<close>

theorem end_zero_is_unset:
  "req_end payload = Some 0 \<Longrightarrow>
   snd (trim_bounds payload dur) = dur \<and>
   trim_bounds payload dur = trim_bounds (payload\<lparr>req_end := None\<rparr>) dur \<and>
   render_video e st payload = render_video e st (payload\<lparr>req_end := None\<rparr>)"
proof (intro conjI)
  assume z: "req_end payload = Some 0"
  show "snd (trim_bounds payload dur) = dur"
    using z by (simp add: trim_bounds_def)
  show "trim_bounds payload dur = trim_bounds (payload\<lparr>req_end := None\<rparr>) dur"
    using bounds_end [OF z] by simp
  show "render_video e st payload = render_video e st (payload\<lparr>req_end := None\<rparr>)"
  proof (rule render_video_eq)
    show "trim_bounds payload = trim_bounds (payload\<lparr>req_end := None\<rparr>)"
      by (rule bounds_end [OF z])
    show "transform_chain mp payload = transform_chain mp (payload\<lparr>req_end := None\<rparr>)" for mp
      by (rule chain_end [OF z])
  qed simp_all
qed

theorem end_zero_is_unset_witness:
  "req_end (sample_request\<lparr>req_start := 2, req_end := Some 0\<rparr>) = Some 0 \<and>
   snd (trim_bounds (sample_request\<lparr>req_start := 2, req_end := Some 0\<rparr>) 10) = 10 \<and>
   (\<exists>d. fst (render_video sample_env sample_server (sample_request\<lparr>req_start := 2, req_end := Some 0\<rparr>)) = Inr d
      \<and> r_start d = 2 \<and> r_end d = 10)"
proof -
  have z: "req_end (sample_request\<lparr>req_start := 2, req_end := Some 0\<rparr>) = Some 0"
    by simp
  note t = end_zero_is_unset [OF z, of 10 sample_env sample_server]
  from t have a: "snd (trim_bounds (sample_request\<lparr>req_start := 2, req_end := Some 0\<rparr>) 10) = 10"
    by (rule conjunct1)
  from t have b: "render_video sample_env sample_server (sample_request\<lparr>req_start := 2, req_end := Some 0\<rparr>)
      = render_video sample_env sample_server (sample_request\<lparr>req_start := 2, req_end := None\<rparr>)"
    by simp
  have r: "fst (render_video sample_env sample_server (sample_request\<lparr>req_start := 2, req_end := None\<rparr>)) =
           Inr \<lparr>r_id = ''doc+'', r_project_id = ''p1'', r_asset_id = ''a1'', r_start = 2,
                r_end = 10, r_speed = 1, r_volume = 1, r_rotate = 0,
                r_resolution_width = None, r_resolution_height = None,
                r_status = ''completed'',
                r_output_url = ''http://localhost:8000/static/outputs/render_20240101120000000000.mp4''\<rparr>"
    by (simp add: render_defs step_defs sample_defs)
  show ?thesis
    unfolding b r using z a by simp
qed

text \<open>
  C5 as stated fails: a start beyond the duration of the source is not reduced to it. For
  a source of ten seconds and a start of fifteen the resolved start is fifteen.
\<close>

theorem trim_start_above_duration_counterexample: "\<not> fst (trim_bounds (sample_request\<lparr>req_start := 15\<rparr>) 10) \<le> 10"
  by (simp add: trim_bounds_def sample_request_def)

text \<open>
  C5, amended. The start is clamped from below only: the resolved start is
  \<open>max 0 start\<close>, never negative, and a start beyond the duration stays as it is. The end
  is the duration when unset, \<open>min end duration\<close> when set (and not zero), and in every
  case at most the duration. The trim hands exactly these bounds to \<open>subclip\<close>.
\<close>

theorem trim_bounds_clamp: "fst (trim_bounds payload dur) = max 0 (req_start payload) \<and>
   0 \<le> fst (trim_bounds payload dur) \<and>
   (req_end payload = None \<longrightarrow> snd (trim_bounds payload dur) = dur) \<and>
   (\<forall>t. req_end payload = Some t \<and> t \<noteq> 0 \<longrightarrow> snd (trim_bounds payload dur) = min t dur) \<and>
   snd (trim_bounds payload dur) \<le> dur \<and>
   trim_step mp payload c =
     subclip mp c (fst (trim_bounds payload (clip_duration c))) (snd (trim_bounds payload (clip_duration c)))"
  by (simp add: trim_bounds_def trim_step_def Let_def split: option.splits)

theorem trim_bounds_clamp_witness: "fst (trim_bounds (sample_request\<lparr>req_start := 15\<rparr>) 10) = 15 \<and>
   snd (trim_bounds (sample_request\<lparr>req_start := 15\<rparr>) 10) = 10 \<and>
   snd (trim_bounds (sample_request\<lparr>req_end := Some 12\<rparr>) 10) = 10 \<and>
   fst (trim_bounds (sample_request\<lparr>req_start := - 3\<rparr>) 10) = 0"
  using trim_bounds_clamp [of "sample_request\<lparr>req_start := 15\<rparr>" 10 sample_media sample_clip]
    trim_bounds_clamp [of "sample_request\<lparr>req_end := Some 12\<rparr>" 10 sample_media sample_clip]
    trim_bounds_clamp [of "sample_request\<lparr>req_start := - 3\<rparr>" 10 sample_media sample_clip]
  by (simp add: sample_request_def)

section \<open>The record of a render and the status of its failures\<close>















section \<open>The resize step\<close>







section \<open>Finding the asset\<close>

lemma find_asset_scoped_eq:
  "find_asset st payload =
     List.find (\<lambda>d. a_id d = req_asset_id payload)
       (filter (\<lambda>d. a_project_id d = req_project_id payload) (assets st))"
  by (simp add: find_asset_def get_documents_asset_def split: option.splits)

lemma find_SomeD: "List.find P xs = Some x \<Longrightarrow> P x \<and> x \<in> set xs"
  by (induction xs) (auto split: if_splits)

lemma find_asset_project:
  "find_asset st payload = Some d \<Longrightarrow>
   d \<in> set (assets st) \<and> a_id d = req_asset_id payload \<and> a_project_id d = req_project_id payload"
  unfolding find_asset_scoped_eq by (auto dest: find_SomeD)

text \<open>
  C2 as stated fails: the second lookup is restricted to the project of the request as
  the first is. The sample asset belongs to project \<open>p1\<close>; asked for under project
  \<open>p2\<close> it is not found.
\<close>

theorem cross_project_lookup_counterexample:
  "a_id sample_asset = ''a1'' \<and> a_project_id sample_asset = ''p1'' \<and>
   assets sample_server = [sample_asset] \<and>
   render_video sample_env sample_server (sample_request\<lparr>req_project_id := ''p2''\<rparr>) =
     (Inl (HTTPException 404 ''Asset not found''), sample_server)"
  by (simp add: render_defs sample_defs)

text \<open>
  C2, amended. Both lookups search the assets whose \<open>project_id\<close> is that of the
  request, so the asset found is the first of these whose identifier is \<open>assetId\<close>: it
  is a stored asset with that identifier and that project. When every stored asset with
  the identifier belongs to another project, none is found: with the media library
  loaded the render then fails with 404, and without it with 500 as every request does;
  either way the state is left as it was.
\<close>

theorem find_asset_scoped:
  "find_asset st payload =
     List.find (\<lambda>d. a_id d = req_asset_id payload)
       (filter (\<lambda>d. a_project_id d = req_project_id payload) (assets st)) \<and>
   (\<forall>d. find_asset st payload = Some d \<longrightarrow>
      d \<in> set (assets st) \<and> a_id d = req_asset_id payload \<and>
      a_project_id d = req_project_id payload) \<and>
   ((\<forall>d \<in> set (assets st). a_id d = req_asset_id payload \<longrightarrow>
        a_project_id d \<noteq> req_project_id payload) \<longrightarrow>
      find_asset st payload = None \<and>
      (\<forall>mp. media e = Some mp \<longrightarrow>
         render_video e st payload = (Inl (HTTPException 404 ''Asset not found''), st)) \<and>
      (media e = None \<longrightarrow>
         render_video e st payload =
           (Inl (HTTPException 500 ''Video processing backend not available''), st)))"
proof -
  have n: "find_asset st payload = None"
    if o: "\<forall>d \<in> set (assets st). a_id d = req_asset_id payload \<longrightarrow>
        a_project_id d \<noteq> req_project_id payload"
  proof (cases "find_asset st payload")
    case (Some d)
    from find_asset_project [OF Some] o show ?thesis by blast
  qed simp
  have r: "render_video e st payload = (Inl (HTTPException 404 ''Asset not found''), st)"
    if "find_asset st payload = None" "media e = Some mp" for mp
    using that by (simp add: render_video_def)
  have u: "render_video e st payload =
      (Inl (HTTPException 500 ''Video processing backend not available''), st)"
    if "media e = None"
    using that by (simp add: render_video_def)
  show ?thesis
    using find_asset_scoped_eq [of st payload] find_asset_project [of st payload] n r u
    by blast
qed

text \<open>
  At the sample deployment, under the project of the asset and under another.
\<close>

theorem find_asset_scoped_witness:
  "find_asset sample_server (sample_request\<lparr>req_project_id := ''p2''\<rparr>) = None \<and>
   find_asset sample_server sample_request = Some sample_asset \<and>
   render_video sample_env sample_server (sample_request\<lparr>req_project_id := ''p2''\<rparr>) =
     (Inl (HTTPException 404 ''Asset not found''), sample_server) \<and>
   render_video (sample_env\<lparr>media := None\<rparr>) sample_server
       (sample_request\<lparr>req_project_id := ''p2''\<rparr>) =
     (Inl (HTTPException 500 ''Video processing backend not available''), sample_server)"
proof -
  note t = find_asset_scoped [where st = sample_server
      and payload = "sample_request\<lparr>req_project_id := ''p2''\<rparr>" and e = sample_env]
  note w = find_asset_scoped [where st = sample_server
      and payload = "sample_request\<lparr>req_project_id := ''p2''\<rparr>"
      and e = "sample_env\<lparr>media := None\<rparr>"]
  note u = find_asset_scoped [where st = sample_server and payload = sample_request
      and e = sample_env]
  have o: "\<forall>d \<in> set (assets sample_server).
      a_id d = req_asset_id (sample_request\<lparr>req_project_id := ''p2''\<rparr>) \<longrightarrow>
      a_project_id d \<noteq> req_project_id (sample_request\<lparr>req_project_id := ''p2''\<rparr>)"
    by (simp add: sample_defs)
  have m: "media sample_env = Some sample_media" "media (sample_env\<lparr>media := None\<rparr>) = None"
    by (simp_all add: sample_env_def)
  from t o have a: "find_asset sample_server (sample_request\<lparr>req_project_id := ''p2''\<rparr>) = None"
    by blast
  from u have b: "find_asset sample_server sample_request =
     List.find (\<lambda>d. a_id d = req_asset_id sample_request)
       (filter (\<lambda>d. a_project_id d = req_project_id sample_request) (assets sample_server))"
    by (rule conjunct1)
  have b': "find_asset sample_server sample_request = Some sample_asset"
    unfolding b by (simp add: sample_defs)
  from t o m(1) have c:
    "render_video sample_env sample_server (sample_request\<lparr>req_project_id := ''p2''\<rparr>) =
     (Inl (HTTPException 404 ''Asset not found''), sample_server)"
    by blast
  from w o m(2) have d:
    "render_video (sample_env\<lparr>media := None\<rparr>) sample_server
       (sample_request\<lparr>req_project_id := ''p2''\<rparr>) =
     (Inl (HTTPException 500 ''Video processing backend not available''), sample_server)"
    by blast
  from a b' c d show ?thesis by (intro conjI)
qed

section \<open>The outcomes of the \<open>try\<close> block\<close>

lemma render_try_outcome:
  assumes "VideoFileClip mp sp = Inr c"
  shows "(\<exists>m. render_try e mp st payload sp = (Inl (HTTPException 500 (''Render failed: '' @ m)), st)
            \<and> transform_chain mp payload c = Inl m) \<or>
         (\<exists>m sub fs. render_try e mp st payload sp =
              (Inl (HTTPException 500 (''Render failed: '' @ m)), st\<lparr>files := fs\<rparr>)
            \<and> transform_chain mp payload c = Inr sub
            \<and> write_videofile mp sub (out_path e) (files st) = (Inl m, fs)) \<or>
         (\<exists>d sub fs. fst (render_try e mp st payload sp) = Inr d
            \<and> transform_chain mp payload c = Inr sub
            \<and> write_videofile mp sub (out_path e) (files st) = (Inr (), fs)
            \<and> r_start d = fst (trim_bounds payload (clip_duration c))
            \<and> r_end d = snd (trim_bounds payload (clip_duration c))
            \<and> r_status d = ''completed''
            \<and> snd (render_try e mp st payload sp) =
                  st\<lparr>files := fs, renders := renders st @ [d], inserted := Suc (inserted st)\<rparr>)"
  unfolding render_try_def render_failed_def assms
  by (auto simp: create_document_render_def Let_def split: sum.splits prod.splits)

lemma render_video_found:
  assumes "media e = Some mp" "find_asset st payload = Some d" "a_path d = Some sp"
    "sp \<noteq> []" "sp \<in> set (files st)"
  shows "render_video e st payload = render_try e mp st payload sp"
  using assms by (simp add: render_video_def)




section \<open>Failed renders and the metadata store\<close>

lemma render_try_open_fails:
  "VideoFileClip mp sp = Inl m \<Longrightarrow>
   render_try e mp st payload sp = (Inl (render_failed m), st)"
  by (simp add: render_try_def)

lemma render_try_chain_fails:
  "VideoFileClip mp sp = Inr c \<Longrightarrow> transform_chain mp payload c = Inl m \<Longrightarrow>
   render_try e mp st payload sp = (Inl (render_failed m), st)"
  by (simp add: render_try_def)

lemma render_try_write_fails:
  "VideoFileClip mp sp = Inr c \<Longrightarrow> transform_chain mp payload c = Inr sub \<Longrightarrow>
   write_videofile mp sub (out_path e) (files st) = (Inl m, fs) \<Longrightarrow>
   render_try e mp st payload sp = (Inl (render_failed m), st\<lparr>files := fs\<rparr>)"
  by (simp add: render_try_def)

lemma render_try_store:
  "(\<forall>x. fst (render_try e mp st payload sp) = Inl x \<longrightarrow>
      renders (snd (render_try e mp st payload sp)) = renders st \<and>
      assets (snd (render_try e mp st payload sp)) = assets st \<and>
      inserted (snd (render_try e mp st payload sp)) = inserted st) \<and>
   (renders (snd (render_try e mp st payload sp)) \<noteq> renders st \<longrightarrow>
      (\<exists>c sub fs d. VideoFileClip mp sp = Inr c \<and> transform_chain mp payload c = Inr sub \<and>
         write_videofile mp sub (out_path e) (files st) = (Inr (), fs) \<and>
         fst (render_try e mp st payload sp) = Inr d \<and> r_status d = ''completed'' \<and>
         snd (render_try e mp st payload sp) =
           st\<lparr>files := fs, renders := renders st @ [d], inserted := Suc (inserted st)\<rparr>))"
proof (cases "VideoFileClip mp sp")
  case (Inl m)
  then show ?thesis by (simp add: render_try_def)
next
  case (Inr c)
  from render_try_outcome [OF Inr, of e st payload] show ?thesis
    using Inr by (elim disjE exE conjE) auto
qed

text \<open>
  C3. A render that fails leaves the metadata store as it was: the collections and the
  count of inserted documents are unchanged. The collection of renders changes only when
  the source was decoded, the transform chain went through and \<open>write_videofile\<close>
  returned without an exception; the record is then appended, with status
  \<open>completed\<close>, to the state that the write left. And once the asset and its file are
  found, a failure of the decoding, of a step of the chain or of the write ends the
  request with status 500.
\<close>

theorem render_record_only_after_write:
  "(\<forall>x. fst (render_video e st payload) = Inl x \<longrightarrow>
      renders (snd (render_video e st payload)) = renders st \<and>
      assets (snd (render_video e st payload)) = assets st \<and>
      inserted (snd (render_video e st payload)) = inserted st) \<and>
   (renders (snd (render_video e st payload)) \<noteq> renders st \<longrightarrow>
      (\<exists>mp sp c sub fs d. media e = Some mp \<and>
         VideoFileClip mp sp = Inr c \<and> transform_chain mp payload c = Inr sub \<and>
         write_videofile mp sub (out_path e) (files st) = (Inr (), fs) \<and>
         fst (render_video e st payload) = Inr d \<and> r_status d = ''completed'' \<and>
         snd (render_video e st payload) =
           st\<lparr>files := fs, renders := renders st @ [d], inserted := Suc (inserted st)\<rparr>)) \<and>
   (\<forall>mp d sp. media e = Some mp \<and> find_asset st payload = Some d \<and> a_path d = Some sp \<and>
        sp \<noteq> [] \<and> sp \<in> set (files st) \<longrightarrow>
      (\<forall>m. VideoFileClip mp sp = Inl m \<longrightarrow>
         render_video e st payload = (Inl (HTTPException 500 (''Render failed: '' @ m)), st)) \<and>
      (\<forall>c m. VideoFileClip mp sp = Inr c \<and> transform_chain mp payload c = Inl m \<longrightarrow>
         render_video e st payload = (Inl (HTTPException 500 (''Render failed: '' @ m)), st)) \<and>
      (\<forall>c sub m fs. VideoFileClip mp sp = Inr c \<and> transform_chain mp payload c = Inr sub \<and>
           write_videofile mp sub (out_path e) (files st) = (Inl m, fs) \<longrightarrow>
         render_video e st payload =
           (Inl (HTTPException 500 (''Render failed: '' @ m)), st\<lparr>files := fs\<rparr>)))"
proof -
  have a: "\<forall>x. fst (render_video e st payload) = Inl x \<longrightarrow>
      renders (snd (render_video e st payload)) = renders st \<and>
      assets (snd (render_video e st payload)) = assets st \<and>
      inserted (snd (render_video e st payload)) = inserted st"
    unfolding render_video_def using render_try_store [of e _ st payload]
    by (auto split: option.splits)
  have b: "renders (snd (render_video e st payload)) \<noteq> renders st \<longrightarrow>
      (\<exists>mp sp c sub fs d. media e = Some mp \<and>
         VideoFileClip mp sp = Inr c \<and> transform_chain mp payload c = Inr sub \<and>
         write_videofile mp sub (out_path e) (files st) = (Inr (), fs) \<and>
         fst (render_video e st payload) = Inr d \<and> r_status d = ''completed'' \<and>
         snd (render_video e st payload) =
           st\<lparr>files := fs, renders := renders st @ [d], inserted := Suc (inserted st)\<rparr>)"
  proof
    assume n: "renders (snd (render_video e st payload)) \<noteq> renders st"
    then obtain mp d sp where h: "media e = Some mp" "find_asset st payload = Some d"
      "a_path d = Some sp" "sp \<noteq> []" "sp \<in> set (files st)"
      unfolding render_video_def by (auto split: option.splits if_splits)
    have v: "render_video e st payload = render_try e mp st payload sp"
      using h by (rule render_video_found)
    from render_try_store [of e mp st payload sp] n h(1)
    show "\<exists>mp sp c sub fs d. media e = Some mp \<and>
         VideoFileClip mp sp = Inr c \<and> transform_chain mp payload c = Inr sub \<and>
         write_videofile mp sub (out_path e) (files st) = (Inr (), fs) \<and>
         fst (render_video e st payload) = Inr d \<and> r_status d = ''completed'' \<and>
         snd (render_video e st payload) =
           st\<lparr>files := fs, renders := renders st @ [d], inserted := Suc (inserted st)\<rparr>"
      unfolding v by blast
  qed
  have c: "\<forall>mp d sp. media e = Some mp \<and> find_asset st payload = Some d \<and> a_path d = Some sp \<and>
        sp \<noteq> [] \<and> sp \<in> set (files st) \<longrightarrow>
      (\<forall>m. VideoFileClip mp sp = Inl m \<longrightarrow>
         render_video e st payload = (Inl (HTTPException 500 (''Render failed: '' @ m)), st)) \<and>
      (\<forall>c m. VideoFileClip mp sp = Inr c \<and> transform_chain mp payload c = Inl m \<longrightarrow>
         render_video e st payload = (Inl (HTTPException 500 (''Render failed: '' @ m)), st)) \<and>
      (\<forall>c sub m fs. VideoFileClip mp sp = Inr c \<and> transform_chain mp payload c = Inr sub \<and>
           write_videofile mp sub (out_path e) (files st) = (Inl m, fs) \<longrightarrow>
         render_video e st payload =
           (Inl (HTTPException 500 (''Render failed: '' @ m)), st\<lparr>files := fs\<rparr>))"
    by (auto simp: render_video_found render_try_open_fails render_try_chain_fails
          render_try_write_fails render_failed_def)
  from a b c show ?thesis by (intro conjI)
qed

text \<open>
  At the sample deployment: a request whose trim fails stores nothing; the default
  request stores its completed record.
\<close>

theorem render_record_only_after_write_witness:
  "renders (snd (render_video sample_env sample_server (sample_request\<lparr>req_start := 15\<rparr>))) =
     renders sample_server \<and>
   (\<exists>d. fst (render_video sample_env sample_server sample_request) = Inr d \<and>
        r_status d = ''completed'' \<and>
        renders (snd (render_video sample_env sample_server sample_request)) =
          renders sample_server @ [d])"
proof -
  note t = render_record_only_after_write
    [of sample_env sample_server "sample_request\<lparr>req_start := 15\<rparr>"]
  note u = render_record_only_after_write [of sample_env sample_server sample_request]
  have f: "fst (render_video sample_env sample_server (sample_request\<lparr>req_start := 15\<rparr>)) =
      Inl (HTTPException 500 ''Render failed: t_start should be smaller than the duration'')"
    by (simp add: render_defs step_defs sample_defs)
  from t f have a:
    "renders (snd (render_video sample_env sample_server (sample_request\<lparr>req_start := 15\<rparr>))) =
     renders sample_server"
    by blast
  have n: "renders (snd (render_video sample_env sample_server sample_request)) \<noteq>
      renders sample_server"
    by (simp add: render_defs step_defs sample_defs)
  from u n obtain d fs where
    "fst (render_video sample_env sample_server sample_request) = Inr d" "r_status d = ''completed''"
    "snd (render_video sample_env sample_server sample_request) =
       sample_server\<lparr>files := fs, renders := renders sample_server @ [d],
         inserted := Suc (inserted sample_server)\<rparr>"
    by blast
  then have b: "\<exists>d. fst (render_video sample_env sample_server sample_request) = Inr d \<and>
        r_status d = ''completed'' \<and>
        renders (snd (render_video sample_env sample_server sample_request)) =
          renders sample_server @ [d]"
    by simp
  from a b show ?thesis by (rule conjI)
qed

lemma find_asset_missing:
  "find_asset sample_server (sample_request\<lparr>req_asset_id := ''a0''\<rparr>) = None"
  by (simp add: find_asset_def get_documents_asset_def sample_defs)

text \<open>
  C6 as stated fails where the media library is not loaded: the guard of line 198 comes
  before the lookup, so a request for an asset that does not exist is answered with
  status 500, not 404.
\<close>

theorem render_not_found_counterexample:
  "find_asset sample_server (sample_request\<lparr>req_asset_id := ''a0''\<rparr>) = None \<and>
   render_video (sample_env\<lparr>media := None\<rparr>) sample_server (sample_request\<lparr>req_asset_id := ''a0''\<rparr>) =
     (Inl (HTTPException 500 ''Video processing backend not available''), sample_server)"
  by (simp add: find_asset_missing render_video_def)

text \<open>
  C6, amended. Without the media library every request fails with status 500 before any
  lookup. With it, a request whose asset is not found fails with 404 (\<open>Asset not
  found\<close>), and one whose asset has no path, an empty path or a path that does not exist
  on disk fails with 404 (\<open>Source file not found on server\<close>). In all three cases the
  state is returned as it was, so no record is stored.
\<close>

theorem render_not_found:
  "(media e = None \<longrightarrow>
      render_video e st payload =
        (Inl (HTTPException 500 ''Video processing backend not available''), st)) \<and>
   (media e \<noteq> None \<longrightarrow>
      (find_asset st payload = None \<longrightarrow>
         render_video e st payload = (Inl (HTTPException 404 ''Asset not found''), st)) \<and>
      (\<forall>d. find_asset st payload = Some d \<and>
            (a_path d = None \<or> a_path d = Some [] \<or>
             (\<exists>sp. a_path d = Some sp \<and> sp \<notin> set (files st))) \<longrightarrow>
         render_video e st payload =
           (Inl (HTTPException 404 ''Source file not found on server''), st)))"
  by (auto simp: render_video_def)

text \<open>
  At the sample deployment: an unknown asset, and the sample asset with its file gone.
\<close>

theorem render_not_found_witness:
  "render_video sample_env sample_server (sample_request\<lparr>req_asset_id := ''a0''\<rparr>) =
     (Inl (HTTPException 404 ''Asset not found''), sample_server) \<and>
   render_video sample_env (sample_server\<lparr>files := []\<rparr>) sample_request =
     (Inl (HTTPException 404 ''Source file not found on server''), sample_server\<lparr>files := []\<rparr>)"
proof -
  note t = render_not_found
    [of sample_env sample_server "sample_request\<lparr>req_asset_id := ''a0''\<rparr>"]
  note u = render_not_found [of sample_env "sample_server\<lparr>files := []\<rparr>" sample_request]
  have m: "media sample_env \<noteq> None"
    by (simp add: sample_env_def)
  from t m find_asset_missing have a:
    "render_video sample_env sample_server (sample_request\<lparr>req_asset_id := ''a0''\<rparr>) =
     (Inl (HTTPException 404 ''Asset not found''), sample_server)"
    by blast
  have f: "find_asset (sample_server\<lparr>files := []\<rparr>) sample_request = Some sample_asset"
    "a_path sample_asset = Some ''static/uploads/clip.mp4''"
    "''static/uploads/clip.mp4'' \<notin> set (files (sample_server\<lparr>files := []\<rparr>))"
    by (simp_all add: find_asset_def get_documents_asset_def sample_defs)
  from u m f have b:
    "render_video sample_env (sample_server\<lparr>files := []\<rparr>) sample_request =
     (Inl (HTTPException 404 ''Source file not found on server''), sample_server\<lparr>files := []\<rparr>)"
    by blast
  from a b show ?thesis by (rule conjI)
qed

section \<open>Ingestion\<close>

lemma kind_of_video: "prefix ''video/'' ct \<Longrightarrow> kind_of ct = ''video''"
  by (simp add: kind_of_def)

lemma kind_of_audio: "prefix ''audio/'' ct \<Longrightarrow> kind_of ct = ''audio''"
  by (cases ct) (auto simp: kind_of_def)

lemma kind_of_image: "prefix ''image/'' ct \<Longrightarrow> kind_of ct = ''image''"
  by (cases ct) (auto simp: kind_of_def)

lemma kind_of_other:
  "\<not> prefix ''video/'' ct \<Longrightarrow> \<not> prefix ''audio/'' ct \<Longrightarrow> \<not> prefix ''image/'' ct \<Longrightarrow>
   kind_of ct = ''other''"
  by (simp add: kind_of_def)

lemma kind_of_cases:
  "kind_of ct = ''other'' \<and> \<not> prefix ''video/'' ct \<and> \<not> prefix ''audio/'' ct \<and> \<not> prefix ''image/'' ct \<or>
   kind_of ct \<noteq> ''other'' \<and> (prefix ''video/'' ct \<or> prefix ''audio/'' ct \<or> prefix ''image/'' ct)"
  by (simp add: kind_of_def)

lemma upload_rejected:
  "kind_of ct = ''other'' \<Longrightarrow>
   upload_asset e st pid (Some ct) fname =
     (Inl (HTTPException 400 ''Only video/audio/image files are supported''), st)"
  by (simp add: upload_asset_def)

lemma upload_accepted:
  assumes k: "kind_of ct \<noteq> ''other''"
  shows "\<exists>resp doc. fst (upload_asset e st pid (Some ct) fname) = Inr resp \<and>
     kind resp = kind_of ct \<and> project_id resp = pid \<and> filename resp = fname \<and>
     a_kind doc = kind_of ct \<and> a_id doc = id_resp resp \<and>
     a_path doc = Some (save_path_of e fname) \<and>
     a_duration doc = duration resp \<and> a_width doc = width resp \<and> a_height doc = height resp \<and>
     (duration resp, width resp, height resp) =
       (if kind_of ct = ''video''
        then (case media e of Some mp \<Rightarrow> probe mp (save_path_of e fname)
              | None \<Rightarrow> (None, None, None))
        else (None, None, None)) \<and>
     snd (upload_asset e st pid (Some ct) fname) =
       st\<lparr>files := save_path_of e fname # files st, assets := assets st @ [doc],
          inserted := Suc (inserted st)\<rparr>"
proof -
  obtain dur wd ht where i:
    "(if kind_of ct = ''video''
      then (case media e of Some mp \<Rightarrow> probe mp (save_path_of e fname)
            | None \<Rightarrow> (None, None, None))
      else (None, None, None)) = (dur, wd, ht)"
    by (rule prod_cases3)
  let ?url = "rstrip_slash (base_url e) @ ''/static/uploads/'' @ utcnow e @ ''_'' @ fname"
  let ?doc = "\<lparr>a_id = new_id e (inserted st), a_project_id = pid, a_filename = fname,
      a_path = Some (save_path_of e fname), a_url = ?url, a_kind = kind_of ct,
      a_duration = dur, a_width = wd, a_height = ht\<rparr>"
  let ?resp = "\<lparr>id_resp = new_id e (inserted st), project_id = pid, filename = fname,
      url = ?url, kind = kind_of ct, duration = dur, width = wd, height = ht\<rparr>"
  have u: "upload_asset e st pid (Some ct) fname =
      (Inr ?resp, st\<lparr>files := save_path_of e fname # files st, assets := assets st @ [?doc],
          inserted := Suc (inserted st)\<rparr>)"
    unfolding upload_asset_def using k
    by (simp add: i create_document_asset_def Let_def)
  show ?thesis
    unfolding u i by (intro exI [of _ ?resp] exI [of _ ?doc]) simp
qed

text \<open>
  C8. An upload without a content type is rejected with status 400 (\<open>Unsupported file
  type\<close>). A content type that starts with \<open>video/\<close>, \<open>audio/\<close> or \<open>image/\<close> gives
  the kind \<open>video\<close>, \<open>audio\<close> or \<open>image\<close>: the upload succeeds, and the response and
  the one asset document added to the store carry that kind. Every other content type is
  rejected with status 400 (\<open>Only video/audio/image files are supported\<close>). A rejection
  returns the state as it was, so no asset document is created.
\<close>

theorem upload_kind_classification:
  "upload_asset e st pid None fname = (Inl (HTTPException 400 ''Unsupported file type''), st) \<and>
   (prefix ''video/'' ct \<longrightarrow> kind_of ct = ''video'') \<and>
   (prefix ''audio/'' ct \<longrightarrow> kind_of ct = ''audio'') \<and>
   (prefix ''image/'' ct \<longrightarrow> kind_of ct = ''image'') \<and>
   (\<not> prefix ''video/'' ct \<and> \<not> prefix ''audio/'' ct \<and> \<not> prefix ''image/'' ct \<longrightarrow>
      upload_asset e st pid (Some ct) fname =
        (Inl (HTTPException 400 ''Only video/audio/image files are supported''), st)) \<and>
   (prefix ''video/'' ct \<or> prefix ''audio/'' ct \<or> prefix ''image/'' ct \<longrightarrow>
      (\<exists>resp doc. fst (upload_asset e st pid (Some ct) fname) = Inr resp \<and>
         kind resp = kind_of ct \<and> a_kind doc = kind_of ct \<and> a_id doc = id_resp resp \<and>
         assets (snd (upload_asset e st pid (Some ct) fname)) = assets st @ [doc]))"
proof (intro conjI impI)
  show "upload_asset e st pid None fname = (Inl (HTTPException 400 ''Unsupported file type''), st)"
    by (simp add: upload_asset_def)
next
  assume "\<not> prefix ''video/'' ct \<and> \<not> prefix ''audio/'' ct \<and> \<not> prefix ''image/'' ct"
  then have "kind_of ct = ''other''"
    by (simp add: kind_of_other)
  then show "upload_asset e st pid (Some ct) fname =
        (Inl (HTTPException 400 ''Only video/audio/image files are supported''), st)"
    by (rule upload_rejected)
next
  assume "prefix ''video/'' ct \<or> prefix ''audio/'' ct \<or> prefix ''image/'' ct"
  with kind_of_cases [of ct] have "kind_of ct \<noteq> ''other''"
    by blast
  from upload_accepted [OF this, of e st pid fname]
  obtain resp doc where "fst (upload_asset e st pid (Some ct) fname) = Inr resp"
    "kind resp = kind_of ct" "a_kind doc = kind_of ct" "a_id doc = id_resp resp"
    "snd (upload_asset e st pid (Some ct) fname) =
       st\<lparr>files := save_path_of e fname # files st, assets := assets st @ [doc],
          inserted := Suc (inserted st)\<rparr>"
    by blast
  then show "\<exists>resp doc. fst (upload_asset e st pid (Some ct) fname) = Inr resp \<and>
         kind resp = kind_of ct \<and> a_kind doc = kind_of ct \<and> a_id doc = id_resp resp \<and>
         assets (snd (upload_asset e st pid (Some ct) fname)) = assets st @ [doc]"
    by (intro exI [of _ resp] exI [of _ doc]) simp
qed (simp_all add: kind_of_video kind_of_audio kind_of_image)

text \<open>
  At the sample deployment: a text file is rejected; three content types are classified.
\<close>

theorem upload_kind_classification_witness:
  "upload_asset sample_env sample_server ''p1'' (Some ''text/plain'') ''notes.txt'' =
     (Inl (HTTPException 400 ''Only video/audio/image files are supported''), sample_server) \<and>
   kind_of ''audio/mpeg'' = ''audio'' \<and> kind_of ''image/png'' = ''image'' \<and>
   kind_of ''video/mp4'' = ''video''"
proof -
  note t = upload_kind_classification [where e = sample_env and st = sample_server
      and pid = "''p1''" and fname = "''notes.txt''" and ct = "''text/plain''"]
  note a = upload_kind_classification [where e = sample_env and st = sample_server
      and pid = "''p1''" and fname = "''notes.txt''" and ct = "''audio/mpeg''"]
  note i = upload_kind_classification [where e = sample_env and st = sample_server
      and pid = "''p1''" and fname = "''notes.txt''" and ct = "''image/png''"]
  note v = upload_kind_classification [where e = sample_env and st = sample_server
      and pid = "''p1''" and fname = "''notes.txt''" and ct = "''video/mp4''"]
  have n: "\<not> prefix ''video/'' ''text/plain'' \<and> \<not> prefix ''audio/'' ''text/plain'' \<and>
      \<not> prefix ''image/'' ''text/plain''"
    by simp
  have p: "prefix ''audio/'' ''audio/mpeg''" "prefix ''image/'' ''image/png''"
    "prefix ''video/'' ''video/mp4''"
    by simp_all
  from t n have 1:
    "upload_asset sample_env sample_server ''p1'' (Some ''text/plain'') ''notes.txt'' =
     (Inl (HTTPException 400 ''Only video/audio/image files are supported''), sample_server)"
    by blast
  from a p(1) have 2: "kind_of ''audio/mpeg'' = ''audio''" by blast
  from i p(2) have 3: "kind_of ''image/png'' = ''image''" by blast
  from v p(3) have 4: "kind_of ''video/mp4'' = ''video''" by blast
  from 1 2 3 4 show ?thesis by (intro conjI)
qed

lemma probe_result:
  "probe mp p =
     (case VideoFileClip mp p of
        Inl _ \<Rightarrow> (None, None, None)
      | Inr c \<Rightarrow> (if clip_duration c \<noteq> 0 then Some (clip_duration c) else None,
                   Some (clip_w c), Some (clip_h c)))"
  by (simp add: probe_def Let_def split: sum.splits)

text \<open>
  C9. An upload whose content type starts with \<open>video/\<close> succeeds whatever the media
  library does: no exception of the probe reaches the caller. It returns a response of
  kind \<open>video\<close> and stores one asset document with the same duration, width and
  height. When the file cannot be decoded (or the library is not loaded) the three fields
  are unset. When it is decoded they are those of the clip, whether or not closing the
  readers fails afterwards.
\<close>

theorem upload_probe_failure_swallowed:
  assumes v: "prefix ''video/'' ct"
  shows "\<exists>resp doc. fst (upload_asset e st pid (Some ct) fname) = Inr resp \<and>
     kind resp = ''video'' \<and>
     assets (snd (upload_asset e st pid (Some ct) fname)) = assets st @ [doc] \<and>
     a_duration doc = duration resp \<and> a_width doc = width resp \<and> a_height doc = height resp \<and>
     ((\<forall>mp. media e = Some mp \<longrightarrow> (\<exists>m. VideoFileClip mp (save_path_of e fname) = Inl m)) \<longrightarrow>
        duration resp = None \<and> width resp = None \<and> height resp = None) \<and>
     (\<forall>mp c. media e = Some mp \<and> VideoFileClip mp (save_path_of e fname) = Inr c \<longrightarrow>
        duration resp = (if clip_duration c \<noteq> 0 then Some (clip_duration c) else None) \<and>
        width resp = Some (clip_w c) \<and> height resp = Some (clip_h c))"
proof -
  have k: "kind_of ct = ''video''"
    using v by (rule kind_of_video)
  then have "kind_of ct \<noteq> ''other''"
    by simp
  from upload_accepted [OF this, of e st pid fname]
  obtain resp doc where r: "fst (upload_asset e st pid (Some ct) fname) = Inr resp"
    "kind resp = kind_of ct" "a_duration doc = duration resp" "a_width doc = width resp"
    "a_height doc = height resp"
    "(duration resp, width resp, height resp) =
       (if kind_of ct = ''video''
        then (case media e of Some mp \<Rightarrow> probe mp (save_path_of e fname)
              | None \<Rightarrow> (None, None, None))
        else (None, None, None))"
    "snd (upload_asset e st pid (Some ct) fname) =
       st\<lparr>files := save_path_of e fname # files st, assets := assets st @ [doc],
          inserted := Suc (inserted st)\<rparr>"
    by blast
  have i: "(duration resp, width resp, height resp) =
       (case media e of Some mp \<Rightarrow> probe mp (save_path_of e fname) | None \<Rightarrow> (None, None, None))"
    using r(6) k by simp
  have f: "duration resp = None \<and> width resp = None \<and> height resp = None"
    if "\<forall>mp. media e = Some mp \<longrightarrow> (\<exists>m. VideoFileClip mp (save_path_of e fname) = Inl m)"
    using i that by (cases "media e") (auto simp: probe_result)
  have s: "duration resp = (if clip_duration c \<noteq> 0 then Some (clip_duration c) else None) \<and>
        width resp = Some (clip_w c) \<and> height resp = Some (clip_h c)"
    if "media e = Some mp \<and> VideoFileClip mp (save_path_of e fname) = Inr c" for mp c
    using i that by (simp add: probe_result)
  have a: "assets (snd (upload_asset e st pid (Some ct) fname)) = assets st @ [doc]"
    using r(7) by simp
  have kv: "kind resp = ''video''"
    using r(2) k by simp
  from r(1) kv a r(3,4,5) f s show ?thesis
    by blast
qed

text \<open>
  At the sample deployment, whose media library cannot decode the uploaded file.
\<close>

theorem upload_probe_failure_swallowed_witness:
  "prefix ''video/'' ''video/mp4'' \<and>
   (\<exists>resp. fst (upload_asset sample_env sample_server ''p1'' (Some ''video/mp4'') ''new.mp4'') = Inr resp \<and>
      kind resp = ''video'' \<and> duration resp = None \<and> width resp = None \<and> height resp = None)"
proof -
  have v: "prefix ''video/'' ''video/mp4''"
    by simp
  have o: "\<forall>mp. media sample_env = Some mp \<longrightarrow>
      (\<exists>m. VideoFileClip mp (save_path_of sample_env ''new.mp4'') = Inl m)"
    by (simp add: sample_env_def sample_media_def save_path_of_def path_join_def UPLOAD_DIR_def)
  from upload_probe_failure_swallowed [OF v, of sample_env sample_server "''p1''" "''new.mp4''"] o
  have "\<exists>resp. fst (upload_asset sample_env sample_server ''p1'' (Some ''video/mp4'') ''new.mp4'') = Inr resp \<and>
      kind resp = ''video'' \<and> duration resp = None \<and> width resp = None \<and> height resp = None"
    by blast
  with v show ?thesis by (rule conjI)
qed

end
